theory Spec2Isabelle
  imports Complex_Main "HOL-Library.Sublist"
begin

section \<open>Python values and strings\<close>

text \<open>
  A Python \<open>str\<close> is modelled as a \<open>string\<close>; a character is read as the code point of
  the same number, so the model covers the code points 0 to 255 (Latin-1).
  The regular expression \<open>[^a-zA-Z0-9]\<close> of \<open>detect_smiles_column\<close> keeps exactly the
  ASCII letters and digits.
\<close>

definition is_ascii_alnum :: "char \<Rightarrow> bool" where
  "is_ascii_alnum c =
     (let n = (of_char c :: nat)
      in (97 \<le> n \<and> n \<le> 122) \<or> (65 \<le> n \<and> n \<le> 90) \<or> (48 \<le> n \<and> n \<le> 57))"

text \<open>
  \<open>str.lower()\<close> on the code points below 256: the ASCII capitals and the Latin-1
  capitals 192 to 222 (without the multiplication sign 215) move up by 32, every other
  character stays.
\<close>

definition lower_char :: "char \<Rightarrow> char" where
  "lower_char c =
     (let n = (of_char c :: nat)
      in if (65 \<le> n \<and> n \<le> 90) \<or> (192 \<le> n \<and> n \<le> 222 \<and> n \<noteq> 215)
         then char_of (n + 32) else c)"

definition lower :: "string \<Rightarrow> string" where
  "lower s = map lower_char s"

text \<open>\<open>re.sub(r'[^a-zA-Z0-9]', '', col)\<close>: every character outside the class is deleted.\<close>

definition re_sub_non_alnum :: "string \<Rightarrow> string" where
  "re_sub_non_alnum col = filter is_ascii_alnum col"

text \<open>
  \<open>str.isspace\<close> on the code points below 256, and \<open>str.strip()\<close>, which drops the
  white space at both ends.
\<close>

definition is_space :: "char \<Rightarrow> bool" where
  "is_space c =
     (let n = (of_char c :: nat)
      in (9 \<le> n \<and> n \<le> 13) \<or> (28 \<le> n \<and> n \<le> 32) \<or> n = 133 \<or> n = 160)"

definition strip :: "string \<Rightarrow> string" where
  "strip s = rev (dropWhile is_space (rev (dropWhile is_space s)))"

text \<open>\<open>name in col_lower\<close>: the substring test of Python, scanning the start positions.\<close>

fun str_in :: "string \<Rightarrow> string \<Rightarrow> bool" where
  "str_in name [] = (name = [])"
| "str_in name (c # cs) = (prefix name (c # cs) \<or> str_in name cs)"

datatype cell = PyStr string | PyFloat real | PyInt int | PyBool bool | PyNone | PyNaN

datatype error = ValueError string | KeyError string

section \<open>The DataFrame\<close>

text \<open>
  A DataFrame: the ordered column names, the rows in their order, each row a mapping
  from column name to cell, and the index, which gives every row its label. The labels
  are of any type \<open>'l\<close> with the equality of Python on it. \<open>pd.read_csv\<close> in \<open>app.py\<close>
  builds the labels 0, 1, 2, ... by default, and takes them from the first field of each
  line when the lines have one field more than the header; then a label can repeat.
\<close>

type_synonym row = "string \<rightharpoonup> cell"

record 'l dataframe =
  columns :: "string list"
  rows :: "row list"
  index :: "'l list"

section \<open>detect_smiles_column\<close>

definition possible_names :: "string list" where
  "possible_names = [''smiles'', ''smi'', ''smile'', ''structure'']"

definition col_clean :: "string \<Rightarrow> string" where
  "col_clean col = lower (re_sub_non_alnum col)"

text \<open>The first loop: the first column whose cleaned name is one of the names.\<close>

fun exact_match :: "string list \<Rightarrow> string option" where
  "exact_match [] = None"
| "exact_match (col # cols) =
     (if col_clean col \<in> set possible_names then Some col else exact_match cols)"

text \<open>The second loop: the first column whose lowercased name contains one of the names.\<close>

definition is_partial :: "string \<Rightarrow> bool" where
  "is_partial col = (let col_lower = lower col in list_ex (\<lambda>name. str_in name col_lower) possible_names)"

fun partial_match :: "string list \<Rightarrow> string option" where
  "partial_match [] = None"
| "partial_match (col # cols) = (if is_partial col then Some col else partial_match cols)"

definition no_column_message :: string where
  "no_column_message =
     ''No valid SMILES column found. Please ensure your CSV contains a column with SMILES strings.''"

definition detect_smiles_column :: "'l dataframe \<Rightarrow> error + string" where
  "detect_smiles_column df =
     (case exact_match (columns df) of
        Some col \<Rightarrow> Inr col
      | None \<Rightarrow>
          (case partial_match (columns df) of
             Some col \<Rightarrow> Inr col
           | None \<Rightarrow> Inl (ValueError no_column_message)))"

section \<open>The cheminformatics engine\<close>

text \<open>
  RDKit is an external library. The five calls \<open>analyze_lipinski\<close> makes are taken as
  parameters: \<open>Chem.MolFromSmiles\<close> returns \<open>None\<close> for a string it rejects, and the
  four descriptor functions are total on the molecules it returns. The two floating-point
  descriptors are only compared with the constants 500 and 5, which is exact, so they are
  modelled as real numbers.
\<close>

record 'mol rdkit =
  MolFromSmiles :: "string \<Rightarrow> 'mol option"
  MolWt :: "'mol \<Rightarrow> real"
  MolLogP :: "'mol \<Rightarrow> real"
  NumHDonors :: "'mol \<Rightarrow> int"
  NumHAcceptors :: "'mol \<Rightarrow> int"

section \<open>analyze_lipinski\<close>

text \<open>
  DataFrames are mutable objects. The heap holds them, a reference is a position in the
  heap, and a new object is allocated at the end. \<open>df.copy()\<close> allocates a copy of the
  object at \<open>df\<close>.
\<close>

type_synonym ref = nat
type_synonym 'l heap = "'l dataframe list"

definition df_copy :: "ref \<Rightarrow> 'l heap \<Rightarrow> ref \<times> 'l heap" where
  "df_copy df h = (length h, h @ [h ! df])"

text \<open>
  \<open>result_df[col] = value\<close> with a scalar: an existing column keeps its position and
  every cell of it is overwritten; a new column is appended after the last one. The
  index stays.
\<close>

definition setitem :: "string \<Rightarrow> cell \<Rightarrow> 'l dataframe \<Rightarrow> 'l dataframe" where
  "setitem col v d =
     \<lparr>columns = (if col \<in> set (columns d) then columns d else columns d @ [col]),
      rows = map (\<lambda>r. r(col \<mapsto> v)) (rows d),
      index = index d\<rparr>"

text \<open>
  \<open>result_df.at[idx, col] = value\<close> addresses the rows by label: the cell in column
  \<open>col\<close> is written in every row that carries the label \<open>idx\<close>. When the label occurs
  once that is one cell; when it repeats, the write reaches all the rows that share it.
  The labels \<open>idx\<close> come from \<open>df.iterrows()\<close> and the copy has the index of \<open>df\<close>, so
  the label is always one of the copy, and the seven columns exist when the loop runs.
\<close>

fun at_rows :: "'l \<Rightarrow> string \<Rightarrow> cell \<Rightarrow> 'l list \<Rightarrow> row list \<Rightarrow> row list" where
  "at_rows idx col v (l # ls) (r # rs) =
     (if l = idx then r(col \<mapsto> v) else r) # at_rows idx col v ls rs"
| "at_rows idx col v ls rs = rs"

definition set_at :: "'l \<Rightarrow> string \<Rightarrow> cell \<Rightarrow> 'l dataframe \<Rightarrow> 'l dataframe" where
  "set_at idx col v d = d\<lparr>rows := at_rows idx col v (index d) (rows d)\<rparr>"

definition df_setitem :: "ref \<Rightarrow> string \<Rightarrow> cell \<Rightarrow> 'l heap \<Rightarrow> 'l heap" where
  "df_setitem r col v h = h[r := setitem col v (h ! r)]"

definition df_set_at :: "ref \<Rightarrow> 'l \<Rightarrow> string \<Rightarrow> cell \<Rightarrow> 'l heap \<Rightarrow> 'l heap" where
  "df_set_at r idx col v h = h[r := set_at idx col v (h ! r)]"

text \<open>\<open>df.iterrows()\<close>: the pairs of index label and row, in row order.\<close>

definition iterrows :: "'l dataframe \<Rightarrow> ('l \<times> row) list" where
  "iterrows d = zip (index d) (rows d)"

text \<open>The four threshold tests, one after the other, each adding one to the counter.\<close>

definition count_violations :: "real \<Rightarrow> real \<Rightarrow> int \<Rightarrow> int \<Rightarrow> int" where
  "count_violations mw logp h_donors h_acceptors =
     (let violations = 0;
          violations = (if mw > 500 then violations + 1 else violations);
          violations = (if logp > 5 then violations + 1 else violations);
          violations = (if h_donors > 5 then violations + 1 else violations);
          violations = (if h_acceptors > 10 then violations + 1 else violations)
      in violations)"

text \<open>
  The part of the loop body after the two \<open>continue\<close> tests: the molecule was parsed,
  the seven cells are written at the label \<open>idx\<close>.
\<close>

definition score_row :: "'mol rdkit \<Rightarrow> ref \<Rightarrow> 'l \<Rightarrow> 'mol \<Rightarrow> 'l heap \<Rightarrow> 'l heap" where
  "score_row rd result_df idx mol h =
     (let h = df_set_at result_df idx ''SMILES_Valid'' (PyBool True) h;
          mw = MolWt rd mol;
          logp = MolLogP rd mol;
          h_donors = NumHDonors rd mol;
          h_acceptors = NumHAcceptors rd mol;
          violations = count_violations mw logp h_donors h_acceptors;
          h = df_set_at result_df idx ''MolWt'' (PyFloat mw) h;
          h = df_set_at result_df idx ''LogP'' (PyFloat logp) h;
          h = df_set_at result_df idx ''NumHDonors'' (PyInt h_donors) h;
          h = df_set_at result_df idx ''NumHAcceptors'' (PyInt h_acceptors) h;
          h = df_set_at result_df idx ''LipinskiViolations'' (PyInt violations) h;
          h = df_set_at result_df idx ''LipinskiResult''
                (PyStr (if violations = 0 then ''Pass'' else ''Fail'')) h
      in h)"

text \<open>
  The loop over \<open>df.iterrows()\<close>. \<open>row[smiles_col]\<close> raises \<open>KeyError\<close> when the row has
  no such column; the loop then stops with the heap as it is. A cell that is not a string,
  or is blank after \<open>strip()\<close>, and a string the parser rejects, take the \<open>continue\<close>.
\<close>

fun analyze_loop ::
  "'mol rdkit \<Rightarrow> ref \<Rightarrow> string \<Rightarrow> ('l \<times> row) list \<Rightarrow> 'l heap \<Rightarrow> error option \<times> 'l heap"
  where
  "analyze_loop rd result_df smiles_col [] h = (None, h)"
| "analyze_loop rd result_df smiles_col ((idx, row) # rest) h =
     (case row smiles_col of
        None \<Rightarrow> (Some (KeyError smiles_col), h)
      | Some smiles \<Rightarrow>
          (case smiles of
             PyStr s \<Rightarrow>
               if strip s = [] then analyze_loop rd result_df smiles_col rest h
               else
                 (case MolFromSmiles rd s of
                    None \<Rightarrow> analyze_loop rd result_df smiles_col rest h
                  | Some mol \<Rightarrow>
                      analyze_loop rd result_df smiles_col rest
                        (score_row rd result_df idx mol h))
           | _ \<Rightarrow> analyze_loop rd result_df smiles_col rest h))"

text \<open>
  The whole function: the copy, the seven column initialisations in the order of the
  source, the loop over the rows of \<open>df\<close>, and the reference of the copy as the result.
\<close>

definition analyze_lipinski ::
  "'mol rdkit \<Rightarrow> ref \<Rightarrow> string \<Rightarrow> 'l heap \<Rightarrow> (error + ref) \<times> 'l heap" where
  "analyze_lipinski rd df smiles_col h =
     (let (result_df, h) = df_copy df h;
          h = df_setitem result_df ''MolWt'' PyNone h;
          h = df_setitem result_df ''LogP'' PyNone h;
          h = df_setitem result_df ''NumHDonors'' PyNone h;
          h = df_setitem result_df ''NumHAcceptors'' PyNone h;
          h = df_setitem result_df ''LipinskiViolations'' (PyInt 0) h;
          h = df_setitem result_df ''LipinskiResult'' (PyStr ''Invalid SMILES'') h;
          h = df_setitem result_df ''SMILES_Valid'' (PyBool False) h
      in case analyze_loop rd result_df smiles_col (iterrows (h ! df)) h of
           (None, h) \<Rightarrow> (Inr result_df, h)
         | (Some e, h) \<Rightarrow> (Inl e, h))"

section \<open>The statistics of app.py\<close>

text \<open>
  \<open>result_df['SMILES_Valid'].sum()\<close>, \<open>len(result_df)\<close> and the two sums of the
  comparisons of \<open>LipinskiResult\<close> with \<open>'Pass'\<close> and \<open>'Fail'\<close>.
\<close>

definition valid_smiles :: "'l dataframe \<Rightarrow> nat" where
  "valid_smiles d = length (filter (\<lambda>r. r ''SMILES_Valid'' = Some (PyBool True)) (rows d))"

definition total_compounds :: "'l dataframe \<Rightarrow> nat" where
  "total_compounds d = length (rows d)"

definition pass_count :: "'l dataframe \<Rightarrow> nat" where
  "pass_count d = length (filter (\<lambda>r. r ''LipinskiResult'' = Some (PyStr ''Pass'')) (rows d))"

definition fail_count :: "'l dataframe \<Rightarrow> nat" where
  "fail_count d = length (filter (\<lambda>r. r ''LipinskiResult'' = Some (PyStr ''Fail'')) (rows d))"

text \<open>
  \<open>app.py\<close> does not compute the number of invalid rows; it is the number of rows whose
  \<open>SMILES_Valid\<close> is false.
\<close>

definition invalid_smiles :: "'l dataframe \<Rightarrow> nat" where
  "invalid_smiles d = length (filter (\<lambda>r. r ''SMILES_Valid'' = Some (PyBool False)) (rows d))"

text \<open>Every row of a table has exactly the columns of the table.\<close>

definition wf_table :: "'l dataframe \<Rightarrow> bool" where
  "wf_table d = (\<forall>r \<in> set (rows d). dom r = set (columns d))"

section \<open>The per-row transform of the specification\<close>

text \<open>
  Section 4.2 of the specification describes the analysis as a pure transform of each row.
  The definitions of this section follow its words; the theorems below compare the loop
  of the source with them. The four threshold tests of a parsed molecule, as truth
  values, and the number of true ones:
\<close>

definition threshold_tests :: "'mol rdkit \<Rightarrow> 'mol \<Rightarrow> bool list" where
  "threshold_tests rd mol =
     [MolWt rd mol > 500, MolLogP rd mol > 5, NumHDonors rd mol > 5, NumHAcceptors rd mol > 10]"

definition spec_violations :: "'mol rdkit \<Rightarrow> 'mol \<Rightarrow> int" where
  "spec_violations rd mol = int (length (filter id (threshold_tests rd mol)))"

text \<open>Steps 1 and 2: the structure of a cell, if it is a non-blank string that parses.\<close>

definition spec_parse :: "'mol rdkit \<Rightarrow> cell option \<Rightarrow> 'mol option" where
  "spec_parse rd smiles =
     (case smiles of
        Some (PyStr s) \<Rightarrow> if strip s = [] then None else MolFromSmiles rd s
      | _ \<Rightarrow> None)"

definition spec_invalid_row :: "row \<Rightarrow> row" where
  "spec_invalid_row r =
     r(''SMILES_Valid'' \<mapsto> PyBool False, ''MolWt'' \<mapsto> PyNone, ''LogP'' \<mapsto> PyNone,
       ''NumHDonors'' \<mapsto> PyNone, ''NumHAcceptors'' \<mapsto> PyNone,
       ''LipinskiViolations'' \<mapsto> PyInt 0, ''LipinskiResult'' \<mapsto> PyStr ''Invalid SMILES'')"

definition spec_scored_row :: "'mol rdkit \<Rightarrow> 'mol \<Rightarrow> row \<Rightarrow> row" where
  "spec_scored_row rd mol r =
     r(''SMILES_Valid'' \<mapsto> PyBool True, ''MolWt'' \<mapsto> PyFloat (MolWt rd mol),
       ''LogP'' \<mapsto> PyFloat (MolLogP rd mol), ''NumHDonors'' \<mapsto> PyInt (NumHDonors rd mol),
       ''NumHAcceptors'' \<mapsto> PyInt (NumHAcceptors rd mol),
       ''LipinskiViolations'' \<mapsto> PyInt (spec_violations rd mol),
       ''LipinskiResult'' \<mapsto> PyStr (if spec_violations rd mol = 0 then ''Pass'' else ''Fail''))"

definition spec_analyze_row :: "'mol rdkit \<Rightarrow> string \<Rightarrow> row \<Rightarrow> row" where
  "spec_analyze_row rd smilesColumn r =
     (case spec_parse rd (r smilesColumn) of
        None \<Rightarrow> spec_invalid_row r
      | Some mol \<Rightarrow> spec_scored_row rd mol r)"

text \<open>
  The names of the columns \<open>analyze_lipinski\<close> assigns, in the order of its seven
  assignments.
\<close>

definition computed_columns :: "string list" where
  "computed_columns =
     [''MolWt'', ''LogP'', ''NumHDonors'', ''NumHAcceptors'', ''LipinskiViolations'',
      ''LipinskiResult'', ''SMILES_Valid'']"

text \<open>
  The table the loop is shown to leave in the copy. Every scored row writes its molecule
  at its label, so after the loop a label holds the molecule of the last row that
  carried it and parsed (\<open>assign\<close>); a row shows the molecule of its label, or the initial
  values when no molecule was written there (\<open>render\<close>).
\<close>

fun assign :: "'mol rdkit \<Rightarrow> string \<Rightarrow> ('l \<times> row) list \<Rightarrow> ('l \<rightharpoonup> 'mol) \<Rightarrow> ('l \<rightharpoonup> 'mol)" where
  "assign rd c [] A = A"
| "assign rd c ((l, r) # ps) A =
     assign rd c ps (case spec_parse rd (r c) of None \<Rightarrow> A | Some mol \<Rightarrow> A(l \<mapsto> mol))"

fun render :: "'mol rdkit \<Rightarrow> ('l \<rightharpoonup> 'mol) \<Rightarrow> 'l list \<Rightarrow> row list \<Rightarrow> row list" where
  "render rd A (l # ls) (r # rs) =
     (case A l of None \<Rightarrow> spec_invalid_row r | Some mol \<Rightarrow> spec_scored_row rd mol r)
     # render rd A ls rs"
| "render rd A ls rs = map spec_invalid_row rs"

definition result_table :: "'mol rdkit \<Rightarrow> string \<Rightarrow> 'l dataframe \<Rightarrow> 'l dataframe" where
  "result_table rd c d =
     \<lparr>columns = columns d @ filter (\<lambda>x. x \<notin> set (columns d)) computed_columns,
      rows = render rd (assign rd c (zip (index d) (rows d)) Map.empty) (index d) (rows d),
      index = index d\<rparr>"

text \<open>
  Section 4.1 of the specification, in its words: the canonical terms, a name that
  equals one of them once it is stripped of the characters that are not ASCII letters or
  digits and lowercased (phase 1), and a name whose lowercased form contains one of them
  as a contiguous substring (phase 2).
\<close>

definition canonical_terms :: "string set" where
  "canonical_terms = {''smiles'', ''smi'', ''smile'', ''structure''}"

definition spec_exact :: "string \<Rightarrow> bool" where
  "spec_exact name = (lower (filter is_ascii_alnum name) \<in> canonical_terms)"

definition spec_substring :: "string \<Rightarrow> bool" where
  "spec_substring name = (\<exists>t \<in> canonical_terms. sublist t (lower name))"

section \<open>Example inputs\<close>

text \<open>
  A stand-in for RDKit that knows ethanol, with the descriptor values RDKit reports for
  it, and rejects every other string. A molecule is represented by its SMILES string.
\<close>

definition ethanol_engine :: "string rdkit" where
  "ethanol_engine =
     \<lparr>MolFromSmiles = (\<lambda>s. if s = ''CCO'' then Some s else None),
      MolWt = (\<lambda>m. 46069 / 1000),
      MolLogP = (\<lambda>m. - 14 / 10000),
      NumHDonors = (\<lambda>m. 1),
      NumHAcceptors = (\<lambda>m. 1)\<rparr>"

text \<open>
  A stand-in that knows ethanol and triacontane, the unbranched alkane of thirty carbon
  atoms, whose logP is far above 5 (about 11.9) while its other descriptors are below the
  thresholds.
\<close>

definition triacontane :: string where
  "triacontane = ''CCCCCCCCCCCCCCCCCCCCCCCCCCCCCC''"

definition alkane_engine :: "string rdkit" where
  "alkane_engine =
     \<lparr>MolFromSmiles = (\<lambda>s. if s = ''CCO'' \<or> s = triacontane then Some s else None),
      MolWt = (\<lambda>m. if m = ''CCO'' then 46069 / 1000 else 422826 / 1000),
      MolLogP = (\<lambda>m. if m = ''CCO'' then - 14 / 10000 else 11949 / 1000),
      NumHDonors = (\<lambda>m. if m = ''CCO'' then 1 else 0),
      NumHAcceptors = (\<lambda>m. if m = ''CCO'' then 1 else 0)\<rparr>"

text \<open>
  A table of three compounds: ethanol, a blank cell and a string that does not parse,
  under the labels 0, 1, 2.
\<close>

definition three_rows :: "int dataframe" where
  "three_rows =
     \<lparr>columns = [''smiles''],
      rows = [[''smiles'' \<mapsto> PyStr ''CCO''], [''smiles'' \<mapsto> PyStr '' ''],
              [''smiles'' \<mapsto> PyStr ''C(C'']],
      index = [0, 1, 2]\<rparr>"

text \<open>A table that already has a column named \<open>MolWt\<close>, filled in by the user.\<close>

definition with_molwt :: "int dataframe" where
  "with_molwt =
     \<lparr>columns = [''smiles'', ''MolWt''],
      rows = [[''smiles'' \<mapsto> PyStr ''CCO'', ''MolWt'' \<mapsto> PyFloat 46]],
      index = [0]\<rparr>"

text \<open>
  Two tables whose two rows carry the same label 0, as \<open>pd.read_csv\<close> builds them from
  the lines \<open>smiles\<close>, \<open>0,CCO\<close>, \<open>0,C1CC\<close> (one field more than the header, so the first
  field is the label): ethanol and then a string that does not parse; and triacontane
  and then ethanol.
\<close>

definition same_label_rejected :: "int dataframe" where
  "same_label_rejected =
     \<lparr>columns = [''smiles''],
      rows = [[''smiles'' \<mapsto> PyStr ''CCO''], [''smiles'' \<mapsto> PyStr ''C1CC'']],
      index = [0, 0]\<rparr>"

definition same_label_valid :: "int dataframe" where
  "same_label_valid =
     \<lparr>columns = [''smiles''],
      rows = [[''smiles'' \<mapsto> PyStr triacontane], [''smiles'' \<mapsto> PyStr ''CCO'']],
      index = [0, 0]\<rparr>"

text \<open>Column names for the detection: the scenarios of the specification and variations.\<close>

definition id_iso_smiles :: "int dataframe" where
  "id_iso_smiles =
     \<lparr>columns = [''id'', ''isosmiles_code'', ''SMILES''], rows = [], index = []\<rparr>"

definition id_iso :: "int dataframe" where
  "id_iso = \<lparr>columns = [''id'', ''isosmiles''], rows = [], index = []\<rparr>"

definition no_smiles :: "int dataframe" where
  "no_smiles = \<lparr>columns = [''id'', ''name''], rows = [], index = []\<rparr>"

definition structure_empty :: "int dataframe" where
  "structure_empty = \<lparr>columns = [''ID'', ''Structure'', ''Name''], rows = [], index = []\<rparr>"

definition structure_one :: "int dataframe" where
  "structure_one =
     \<lparr>columns = [''ID'', ''Structure'', ''Name''],
      rows = [[''ID'' \<mapsto> PyInt 1, ''Structure'' \<mapsto> PyStr ''CCO'',
               ''Name'' \<mapsto> PyStr ''ethanol'']],
      index = [0]\<rparr>"

section \<open>Auxiliary definitions for the proofs\<close>

definition add_col :: "string list \<Rightarrow> string \<Rightarrow> string list" where
  "add_col cs c = (if c \<in> set cs then cs else cs @ [c])"

definition init_columns :: "'l dataframe \<Rightarrow> 'l dataframe" where
  "init_columns d =
     setitem ''SMILES_Valid'' (PyBool False)
      (setitem ''LipinskiResult'' (PyStr ''Invalid SMILES'')
        (setitem ''LipinskiViolations'' (PyInt 0)
          (setitem ''NumHAcceptors'' PyNone
            (setitem ''NumHDonors'' PyNone
              (setitem ''LogP'' PyNone
                (setitem ''MolWt'' PyNone d))))))"

text \<open>A function applied to the rows that carry a label.\<close>

fun upd_rows :: "'l \<Rightarrow> (row \<Rightarrow> row) \<Rightarrow> 'l list \<Rightarrow> row list \<Rightarrow> row list" where
  "upd_rows idx f (l # ls) (r # rs) = (if l = idx then f r else r) # upd_rows idx f ls rs"
| "upd_rows idx f ls rs = rs"

section \<open>The loop of analyze_lipinski and the table it leaves\<close>

lemma count_violations_eq:
  "count_violations (MolWt rd mol) (MolLogP rd mol) (NumHDonors rd mol) (NumHAcceptors rd mol)
     = spec_violations rd mol"
  by (simp add: count_violations_def spec_violations_def threshold_tests_def)

lemma at_rows_upd: "at_rows idx col v ls rs = upd_rows idx (\<lambda>r. r(col \<mapsto> v)) ls rs"
  by (induction idx col v ls rs rule: at_rows.induct) (simp_all add: fun_upd_def)

lemma upd_rows_comp: "upd_rows idx f ls (upd_rows idx g ls rs) = upd_rows idx (\<lambda>r. f (g r)) ls rs"
  by (induction idx g ls rs rule: upd_rows.induct) simp_all

lemma scored_row_fun:
  "(\<lambda>r. r(''SMILES_Valid'' \<mapsto> PyBool True, ''MolWt'' \<mapsto> PyFloat (MolWt rd mol),
       ''LogP'' \<mapsto> PyFloat (MolLogP rd mol), ''NumHDonors'' \<mapsto> PyInt (NumHDonors rd mol),
       ''NumHAcceptors'' \<mapsto> PyInt (NumHAcceptors rd mol),
       ''LipinskiViolations'' \<mapsto> PyInt (spec_violations rd mol),
       ''LipinskiResult'' \<mapsto> PyStr (if spec_violations rd mol = 0 then ''Pass'' else ''Fail'')))
   = spec_scored_row rd mol"
  by (rule ext) (simp add: spec_scored_row_def)

lemma score_row_eq:
  assumes "res < length h"
  shows "score_row rd res idx mol h =
           h[res := (h ! res)\<lparr>rows :=
              upd_rows idx (spec_scored_row rd mol) (index (h ! res)) (rows (h ! res))\<rparr>]"
  using assms
  by (simp add: score_row_def df_set_at_def set_at_def count_violations_eq Let_def
      at_rows_upd upd_rows_comp scored_row_fun)

lemma scored_invalid: "spec_scored_row rd mol (spec_invalid_row r) = spec_scored_row rd mol r"
  by (rule ext) (simp add: spec_scored_row_def spec_invalid_row_def)

lemma scored_scored: "spec_scored_row rd mol (spec_scored_row rd mol' r) = spec_scored_row rd mol r"
  by (rule ext) (simp add: spec_scored_row_def)

lemma upd_render:
  "upd_rows l (spec_scored_row rd m) I (render rd A I R) = render rd (A(l \<mapsto> m)) I R"
  by (induction rd A I R rule: render.induct)
     (simp_all add: scored_invalid scored_scored split: option.splits)

lemma render_empty: "render rd Map.empty I R = map spec_invalid_row R"
proof (induction I arbitrary: R)
  case Nil
  then show ?case by simp
next
  case (Cons l ls)
  then show ?case by (cases R) simp_all
qed

lemma length_render: "length (render rd A I R) = length R"
  by (induction rd A I R rule: render.induct) simp_all

lemma foldl_add_col:
  "distinct xs \<Longrightarrow> foldl add_col cs xs = cs @ filter (\<lambda>c. c \<notin> set cs) xs"
  by (induction xs rule: rev_induct) (auto simp: add_col_def)

lemma setitem_columns: "columns (setitem c v d) = add_col (columns d) c"
  by (simp add: setitem_def add_col_def)

lemma setitem_rows: "rows (setitem c v d) = map (\<lambda>r. r(c \<mapsto> v)) (rows d)"
  by (simp add: setitem_def)

lemma setitem_index: "index (setitem c v d) = index d"
  by (simp add: setitem_def)

lemma init_rows_eq:
  "(\<lambda>r. r(''MolWt'' \<mapsto> PyNone, ''LogP'' \<mapsto> PyNone, ''NumHDonors'' \<mapsto> PyNone,
      ''NumHAcceptors'' \<mapsto> PyNone, ''LipinskiViolations'' \<mapsto> PyInt 0,
      ''LipinskiResult'' \<mapsto> PyStr ''Invalid SMILES'', ''SMILES_Valid'' \<mapsto> PyBool False))
   = spec_invalid_row"
  by (rule ext, rule ext) (simp add: spec_invalid_row_def)

lemma init_columns_eq:
  "init_columns d =
     \<lparr>columns = columns d @ filter (\<lambda>c. c \<notin> set (columns d)) computed_columns,
      rows = map spec_invalid_row (rows d),
      index = index d\<rparr>"
proof -
  have "columns (init_columns d) = foldl add_col (columns d) computed_columns"
    by (simp add: init_columns_def setitem_columns computed_columns_def)
  moreover have "distinct computed_columns"
    by (simp add: computed_columns_def)
  ultimately have c: "columns (init_columns d) =
      columns d @ filter (\<lambda>c. c \<notin> set (columns d)) computed_columns"
    by (simp add: foldl_add_col)
  have r: "rows (init_columns d) = map spec_invalid_row (rows d)"
    by (simp add: init_columns_def setitem_rows init_rows_eq [symmetric] comp_def)
  have i: "index (init_columns d) = index d"
    by (simp add: init_columns_def setitem_index)
  show ?thesis using c r i by (cases "init_columns d") simp
qed

lemma init_heap:
  assumes "df < length h"
  shows "df_setitem (length h) ''SMILES_Valid'' (PyBool False)
      (df_setitem (length h) ''LipinskiResult'' (PyStr ''Invalid SMILES'')
        (df_setitem (length h) ''LipinskiViolations'' (PyInt 0)
          (df_setitem (length h) ''NumHAcceptors'' PyNone
            (df_setitem (length h) ''NumHDonors'' PyNone
              (df_setitem (length h) ''LogP'' PyNone
                (df_setitem (length h) ''MolWt'' PyNone (h @ [h ! df])))))))
         = h @ [init_columns (h ! df)]"
  by (simp add: df_setitem_def init_columns_def)

text \<open>
  The invariant of the loop: the rows of the copy are the rendering of the molecules
  written so far.
\<close>

lemma analyze_loop_eq:
  assumes "res < length h" and "\<forall>p \<in> set ps. snd p c \<noteq> None"
    and "rows (h ! res) = render rd A (index (h ! res)) R"
  shows "analyze_loop rd res c ps h =
           (None, h[res := (h ! res)\<lparr>rows :=
              render rd (assign rd c ps A) (index (h ! res)) R\<rparr>])"
  using assms
proof (induction ps arbitrary: h A)
  case Nil
  have "(h ! res)\<lparr>rows := render rd A (index (h ! res)) R\<rparr> = h ! res"
    using Nil.prems(3) [symmetric] by simp
  then show ?case by (simp add: list_update_same_conv)
next
  case (Cons p ps)
  obtain l r where p: "p = (l, r)" by (cases p)
  from Cons.prems(2) p obtain v where v: "r c = Some v" by auto
  have rest: "\<forall>p \<in> set ps. snd p c \<noteq> None" using Cons.prems(2) by simp
  show ?case
  proof (cases "spec_parse rd (r c)")
    case None
    then have "analyze_loop rd res c (p # ps) h = analyze_loop rd res c ps h"
      using v p by (auto simp: spec_parse_def split: cell.splits if_splits option.splits)
    also have "\<dots> = (None, h[res := (h ! res)\<lparr>rows :=
        render rd (assign rd c ps A) (index (h ! res)) R\<rparr>])"
      using Cons.IH [OF Cons.prems(1) rest Cons.prems(3)] .
    finally show ?thesis using None p by simp
  next
    case (Some mol)
    let ?h1 = "score_row rd res l mol h"
    have h1: "?h1 = h[res := (h ! res)\<lparr>rows :=
        render rd (A(l \<mapsto> mol)) (index (h ! res)) R\<rparr>]"
      using Cons.prems(1,3) by (simp add: score_row_eq upd_render)
    have len: "res < length ?h1" using Cons.prems(1) by (simp add: h1)
    have inv: "rows (?h1 ! res) = render rd (A(l \<mapsto> mol)) (index (?h1 ! res)) R"
      using Cons.prems(1) by (simp add: h1)
    have "analyze_loop rd res c (p # ps) h = analyze_loop rd res c ps ?h1"
      using v Some p by (auto simp: spec_parse_def split: cell.splits if_splits option.splits)
    also have "\<dots> = (None, ?h1[res := (?h1 ! res)\<lparr>rows :=
        render rd (assign rd c ps (A(l \<mapsto> mol))) (index (?h1 ! res)) R\<rparr>])"
      using Cons.IH [OF len rest inv] .
    finally show ?thesis using Some p Cons.prems(1) by (simp add: h1)
  qed
qed

text \<open>
  On a heap where \<open>df\<close> is an object and every row of it has a cell in column \<open>c\<close>, the
  function returns a new object and leaves the heap below it as it was.
\<close>

lemma analyze_lipinski_eq:
  assumes "df < length h" and "\<forall>r \<in> set (rows (h ! df)). r c \<noteq> None"
  shows "analyze_lipinski rd df c h = (Inr (length h), h @ [result_table rd c (h ! df)])"
proof -
  let ?d = "h ! df"
  let ?h0 = "h @ [init_columns ?d]"
  have df: "?h0 ! df = ?d" using assms(1) by (simp add: nth_append)
  have cells: "\<forall>p \<in> set (zip (index ?d) (rows ?d)). snd p c \<noteq> None"
    using assms(2) by (auto dest: set_zip_rightD)
  have inv: "rows (?h0 ! length h) = render rd Map.empty (index (?h0 ! length h)) (rows ?d)"
    by (simp add: init_columns_eq render_empty)
  have "analyze_loop rd (length h) c (zip (index ?d) (rows ?d)) ?h0 =
          (None, ?h0[length h := (?h0 ! length h)\<lparr>rows :=
             render rd (assign rd c (zip (index ?d) (rows ?d)) Map.empty)
               (index (?h0 ! length h)) (rows ?d)\<rparr>])"
    using cells inv by (intro analyze_loop_eq) simp_all
  then have "analyze_loop rd (length h) c (iterrows (?h0 ! df)) ?h0 =
      (None, h @ [result_table rd c ?d])"
    unfolding df iterrows_def by (simp add: init_columns_eq result_table_def)
  then show ?thesis
    by (simp add: analyze_lipinski_def df_copy_def init_heap [OF assms(1)])
qed

lemma wf_table_cell:
  assumes "wf_table d" and "c \<in> set (columns d)"
  shows "\<forall>r \<in> set (rows d). r c \<noteq> None"
proof
  fix r assume "r \<in> set (rows d)"
  then have "dom r = set (columns d)" using assms(1) by (simp add: wf_table_def)
  then have "c \<in> dom r" using assms(2) by simp
  then show "r c \<noteq> None" by (simp add: domIff)
qed

lemma analyze_lipinski_wf:
  assumes "df < length h" and "wf_table (h ! df)" and "c \<in> set (columns (h ! df))"
  shows "analyze_lipinski rd df c h = (Inr (length h), h @ [result_table rd c (h ! df)])"
  using analyze_lipinski_eq [OF assms(1) wf_table_cell [OF assms(2,3)]] .

text \<open>
  When no label repeats, every label holds the molecule of its own row, and the table is
  the per-row transform of the specification.
\<close>

lemma assign_distinct:
  "distinct (map fst ps) \<Longrightarrow>
   assign rd c ps A l =
     (case map_of ps l of
        None \<Rightarrow> A l
      | Some r \<Rightarrow> (case spec_parse rd (r c) of None \<Rightarrow> A l | Some m \<Rightarrow> Some m))"
proof (induction ps arbitrary: A)
  case Nil
  then show ?case by simp
next
  case (Cons p ps)
  obtain l' r' where p: "p = (l', r')" by (cases p)
  have d: "distinct (map fst ps)" and n: "map_of ps l' = None"
    using Cons.prems p by (simp_all add: map_of_eq_None_iff)
  show ?case
    using Cons.IH [OF d] p n by (auto split: option.splits)
qed

lemma nth_render:
  "i < length R \<Longrightarrow> i < length I \<Longrightarrow>
   render rd A I R ! i =
     (case A (I ! i) of
        None \<Rightarrow> spec_invalid_row (R ! i)
      | Some m \<Rightarrow> spec_scored_row rd m (R ! i))"
proof (induction rd A I R arbitrary: i rule: render.induct)
  case (1 rd A l ls r rs)
  then show ?case by (cases i) (auto split: option.splits)
qed simp_all

lemma render_unique:
  assumes "distinct I" and "length I = length R"
  shows "render rd (assign rd c (zip I R) Map.empty) I R = map (spec_analyze_row rd c) R"
proof (rule nth_equalityI)
  show "length (render rd (assign rd c (zip I R) Map.empty) I R) =
        length (map (spec_analyze_row rd c) R)"
    by (simp add: length_render)
next
  fix i assume "i < length (render rd (assign rd c (zip I R) Map.empty) I R)"
  then have i: "i < length R" by (simp add: length_render)
  have d: "distinct (map fst (zip I R))" using assms by simp
  have m: "map_of (zip I R) (I ! i) = Some (R ! i)"
    using assms i by (simp add: map_of_zip_nth)
  have "assign rd c (zip I R) Map.empty (I ! i) = spec_parse rd ((R ! i) c)"
    by (simp add: assign_distinct [OF d] m split: option.splits)
  then show "render rd (assign rd c (zip I R) Map.empty) I R ! i =
             map (spec_analyze_row rd c) R ! i"
    using i assms(2) by (simp add: nth_render spec_analyze_row_def)
qed

section \<open>Facts about detect_smiles_column\<close>

text \<open>
  Both loops are searches for the first column with a property; the two properties are
  the ones of the specification.
\<close>

lemma str_in_sublist: "str_in name s \<longleftrightarrow> sublist name s"
  by (induction s) (auto simp: sublist_Cons_right)

lemma col_clean_exact: "col_clean c \<in> set possible_names \<longleftrightarrow> spec_exact c"
  by (simp add: col_clean_def re_sub_non_alnum_def possible_names_def spec_exact_def canonical_terms_def)

lemma is_partial_substring: "is_partial c \<longleftrightarrow> spec_substring c"
  by (simp add: is_partial_def possible_names_def spec_substring_def canonical_terms_def str_in_sublist Let_def)

lemma exact_match_find: "exact_match cols = find spec_exact cols"
  by (induction cols) (simp_all add: col_clean_exact)

lemma partial_match_find: "partial_match cols = find spec_substring cols"
  by (induction cols) (simp_all add: is_partial_substring)

lemma find_Some_in: "find P xs = Some x \<Longrightarrow> P x \<and> x \<in> set xs"
  by (induction xs) (auto split: if_splits)

lemma detect_find:
  "detect_smiles_column df =
     (case find spec_exact (columns df) of
        Some col \<Rightarrow> Inr col
      | None \<Rightarrow> (case find spec_substring (columns df) of
                   Some col \<Rightarrow> Inr col
                 | None \<Rightarrow> Inl (ValueError no_column_message)))"
  unfolding detect_smiles_column_def exact_match_find partial_match_find ..

lemma eval_exact:
  "spec_exact ''SMILES''" "\<not> spec_exact ''id''" "\<not> spec_exact ''isosmiles_code''"
  "\<not> spec_exact ''isosmiles''" "\<not> spec_exact ''name''"
  by code_simp+

lemma eval_substring:
  "spec_substring ''isosmiles''" "\<not> spec_substring ''id''" "spec_substring ''isosmiles_code''"
  "\<not> spec_substring ''name''"
  by code_simp+

lemma eval_detect_structure: "detect_smiles_column structure_empty = Inr ''Structure''"
  by code_simp

lemma all_less_2: "(\<forall>j < (2::nat). P j) \<longleftrightarrow> P 0 \<and> P 1"
  by (auto simp: less_Suc_eq numeral_2_eq_2)

lemma all_less_1: "(\<forall>j < (1::nat). P j) \<longleftrightarrow> P 0"
  by auto

section \<open>Facts about the rows of the result\<close>

lemma spec_violations_le: "length (filter id (threshold_tests rd mol)) \<le> 4"
proof -
  have "length (filter id (threshold_tests rd mol)) \<le> length (threshold_tests rd mol)"
    by (rule length_filter_le)
  then show ?thesis by (simp add: threshold_tests_def)
qed

lemma scored_cells:
  "spec_scored_row rd mol r ''SMILES_Valid'' = Some (PyBool True)"
  "spec_scored_row rd mol r ''MolWt'' = Some (PyFloat (MolWt rd mol))"
  "spec_scored_row rd mol r ''LipinskiViolations'' = Some (PyInt (spec_violations rd mol))"
  "spec_scored_row rd mol r ''LipinskiResult'' =
     Some (PyStr (if spec_violations rd mol = 0 then ''Pass'' else ''Fail''))"
  by (simp_all add: spec_scored_row_def)

lemma invalid_cells:
  "spec_invalid_row r ''SMILES_Valid'' = Some (PyBool False)"
  "spec_invalid_row r ''MolWt'' = Some PyNone"
  "spec_invalid_row r ''LogP'' = Some PyNone"
  "spec_invalid_row r ''NumHDonors'' = Some PyNone"
  "spec_invalid_row r ''NumHAcceptors'' = Some PyNone"
  "spec_invalid_row r ''LipinskiViolations'' = Some (PyInt 0)"
  "spec_invalid_row r ''LipinskiResult'' = Some (PyStr ''Invalid SMILES'')"
  by (simp_all add: spec_invalid_row_def)


lemma rows_result_table:
  "rows (result_table rd c d) =
     render rd (assign rd c (zip (index d) (rows d)) Map.empty) (index d) (rows d)"
  by (simp add: result_table_def)

lemma columns_result_table:
  "columns (result_table rd c d) = columns d @ filter (\<lambda>x. x \<notin> set (columns d)) computed_columns"
  by (simp add: result_table_def)


lemma length_result_table: "length (rows (result_table rd c d)) = length (rows d)"
  by (simp add: rows_result_table length_render)

text \<open>Whatever the labels are, a row of the result is its input row, unscored or scored.\<close>

lemma nth_render_shape:
  "i < length R \<Longrightarrow>
   render rd A I R ! i = spec_invalid_row (R ! i) \<or>
   (\<exists>m. render rd A I R ! i = spec_scored_row rd m (R ! i))"
proof (induction rd A I R arbitrary: i rule: render.induct)
  case (1 rd A l ls r rs)
  then show ?case by (cases i) (auto split: option.splits)
qed simp_all


lemma render_shape:
  assumes "x \<in> set (render rd A I R)"
  shows "(\<exists>r. x = spec_invalid_row r) \<or> (\<exists>m r. x = spec_scored_row rd m r)"
proof -
  from assms obtain i where i: "i < length R" and x: "x = render rd A I R ! i"
    by (auto simp: in_set_conv_nth length_render)
  show ?thesis using nth_render_shape [OF i, of rd A I] x by auto
qed

lemma count_valid_invalid:
  assumes "\<forall>x \<in> set xs. (\<exists>r. x = spec_invalid_row r) \<or> (\<exists>m r. x = spec_scored_row rd m r)"
  shows "length (filter (\<lambda>r. r ''SMILES_Valid'' = Some (PyBool True)) xs) +
         length (filter (\<lambda>r. r ''SMILES_Valid'' = Some (PyBool False)) xs) = length xs"
  using assms by (induction xs) (auto simp: scored_cells invalid_cells)

lemma count_pass_fail:
  assumes "\<forall>x \<in> set xs. (\<exists>r. x = spec_invalid_row r) \<or> (\<exists>m r. x = spec_scored_row rd m r)"
  shows "length (filter (\<lambda>r. r ''LipinskiResult'' = Some (PyStr ''Pass'')) xs) +
         length (filter (\<lambda>r. r ''LipinskiResult'' = Some (PyStr ''Fail'')) xs) =
         length (filter (\<lambda>r. r ''SMILES_Valid'' = Some (PyBool True)) xs)"
  using assms by (induction xs) (auto simp: scored_cells invalid_cells split: if_splits)

lemma invalid_not_scored:
  assumes "(\<exists>r. x = spec_invalid_row r) \<or> (\<exists>m r. x = spec_scored_row rd m r)"
    and "x ''SMILES_Valid'' = Some (PyBool False)"
  shows "x ''LipinskiResult'' = Some (PyStr ''Invalid SMILES'')"
  using assms by (auto simp: scored_cells invalid_cells)

text \<open>With an index in which no label repeats, a row of the result is the transform of its input row.\<close>

lemma rows_result_table_unique:
  assumes "distinct (index d)" and "length (index d) = length (rows d)"
  shows "rows (result_table rd c d) = map (spec_analyze_row rd c) (rows d)"
  using assms by (simp add: rows_result_table render_unique)

lemma three_rows_wf: "wf_table ([three_rows] ! 0)"
  by (simp add: wf_table_def three_rows_def)

lemma three_rows_col: "''smiles'' \<in> set (columns ([three_rows] ! 0))"
  by (simp add: three_rows_def)

lemma strip_examples:
  "strip ''CCO'' \<noteq> []" "strip '' '' = []" "strip ''C(C'' \<noteq> []" "strip ''C1CC'' \<noteq> []"
  "strip triacontane \<noteq> []"
  by (simp_all add: strip_def is_space_def triacontane_def)

section \<open>Rows under an index without repeated labels\<close>

text \<open>
  When no label of the index repeats, the write at a label reaches one row, and the loop
  does for each row what the specification says: a row whose cell is a string that is not
  blank and that the parser accepts gets the number of true threshold tests and the
  result that goes with it; every other row keeps the initial values.
\<close>

lemma unique_index_scored_row:
  assumes "df < length h" and "wf_table (h ! df)" and "smiles_col \<in> set (columns (h ! df))"
    and "distinct (index (h ! df))" and "length (index (h ! df)) = length (rows (h ! df))"
    and "i < length (rows (h ! df))"
    and "(rows (h ! df) ! i) smiles_col = Some (PyStr s)" and "strip s \<noteq> []"
    and "MolFromSmiles rd s = Some mol"
  shows "\<exists>result_df h'.
           analyze_lipinski rd df smiles_col h = (Inr result_df, h') \<and>
           (rows (h' ! result_df) ! i) ''LipinskiViolations'' =
             Some (PyInt (int (length (filter id (threshold_tests rd mol))))) \<and>
           length (filter id (threshold_tests rd mol)) \<le> 4 \<and>
           (rows (h' ! result_df) ! i) ''LipinskiResult'' =
             Some (PyStr (if length (filter id (threshold_tests rd mol)) = 0
                          then ''Pass'' else ''Fail''))"
proof -
  have run: "analyze_lipinski rd df smiles_col h =
      (Inr (length h), h @ [result_table rd smiles_col (h ! df)])"
    using assms(1-3) by (rule analyze_lipinski_wf)
  have parse: "spec_parse rd ((rows (h ! df) ! i) smiles_col) = Some mol"
    using assms(7-9) by (simp add: spec_parse_def)
  have row: "rows (result_table rd smiles_col (h ! df)) ! i =
      spec_scored_row rd mol (rows (h ! df) ! i)"
    using assms(4-6) parse by (simp add: rows_result_table_unique spec_analyze_row_def)
  show ?thesis
    using run row spec_violations_le [of rd mol]
    by (simp add: scored_cells spec_violations_def)
qed

lemma unique_index_invalid_row:
  assumes "df < length h" and "wf_table (h ! df)" and "smiles_col \<in> set (columns (h ! df))"
    and "distinct (index (h ! df))" and "length (index (h ! df)) = length (rows (h ! df))"
    and "i < length (rows (h ! df))"
    and "\<forall>s. (rows (h ! df) ! i) smiles_col = Some (PyStr s) \<longrightarrow>
            strip s = [] \<or> MolFromSmiles rd s = None"
  shows "\<exists>result_df h'.
           analyze_lipinski rd df smiles_col h = (Inr result_df, h') \<and>
           (rows (h' ! result_df) ! i) ''SMILES_Valid'' = Some (PyBool False) \<and>
           (rows (h' ! result_df) ! i) ''MolWt'' = Some PyNone \<and>
           (rows (h' ! result_df) ! i) ''LogP'' = Some PyNone \<and>
           (rows (h' ! result_df) ! i) ''NumHDonors'' = Some PyNone \<and>
           (rows (h' ! result_df) ! i) ''NumHAcceptors'' = Some PyNone \<and>
           (rows (h' ! result_df) ! i) ''LipinskiViolations'' = Some (PyInt 0) \<and>
           (rows (h' ! result_df) ! i) ''LipinskiResult'' = Some (PyStr ''Invalid SMILES'')"
proof -
  have run: "analyze_lipinski rd df smiles_col h =
      (Inr (length h), h @ [result_table rd smiles_col (h ! df)])"
    using assms(1-3) by (rule analyze_lipinski_wf)
  have parse: "spec_parse rd ((rows (h ! df) ! i) smiles_col) = None"
    using assms(7) by (auto simp: spec_parse_def split: option.splits cell.splits)
  have row: "rows (result_table rd smiles_col (h ! df)) ! i = spec_invalid_row (rows (h ! df) ! i)"
    using assms(4-6) parse by (simp add: rows_result_table_unique spec_analyze_row_def)
  show ?thesis
    using run row by (simp add: invalid_cells)
qed

section \<open>The claims\<close>

text \<open>
  The theorems about \<open>analyze_lipinski\<close> are stated for a heap \<open>h\<close> in which \<open>df\<close> is an
  object, for a table whose rows all have the columns of the table, and for a
  \<open>smiles_col\<close> that is one of these columns, as the select box of \<open>app.py\<close> provides
  it. Each of them also says that the call returns.
\<close>

text \<open>
  C1. The claim fails on the code when two rows share an index label. In the table of
  triacontane and ethanol under the one label 0, the first row parses and one of its four
  threshold tests is true (\<open>LogP > 5\<close>), so the claim gives it one violation and the
  result \<open>Fail\<close>. The write of the second row goes to the label, reaches the first row
  too, and leaves it with the values of ethanol: no violation and \<open>Pass\<close>.
\<close>

theorem analyze_same_label_loses_violation:
  "fst (analyze_lipinski alkane_engine 0 ''smiles'' [same_label_valid]) = Inr 1 \<and>
   index same_label_valid = [0, 0] \<and>
   (rows same_label_valid ! 0) ''smiles'' = Some (PyStr triacontane) \<and>
   strip triacontane \<noteq> [] \<and>
   MolFromSmiles alkane_engine triacontane = Some triacontane \<and>
   threshold_tests alkane_engine triacontane = [False, True, False, False] \<and>
   (rows (snd (analyze_lipinski alkane_engine 0 ''smiles'' [same_label_valid]) ! 1) ! 0)
      ''LipinskiViolations'' = Some (PyInt 0) \<and>
   (rows (snd (analyze_lipinski alkane_engine 0 ''smiles'' [same_label_valid]) ! 1) ! 0)
      ''LipinskiResult'' = Some (PyStr ''Pass'')"
proof -
  have wf: "wf_table ([same_label_valid] ! 0)"
    by (simp add: wf_table_def same_label_valid_def)
  have col: "''smiles'' \<in> set (columns ([same_label_valid] ! 0))"
    by (simp add: same_label_valid_def)
  have "0 < length [same_label_valid]" by simp
  from analyze_lipinski_wf [OF this wf col, of alkane_engine]
  have run: "analyze_lipinski alkane_engine 0 ''smiles'' [same_label_valid] =
      (Inr 1, [same_label_valid, result_table alkane_engine ''smiles'' same_label_valid])"
    by simp
  have ne: "triacontane \<noteq> ''CCO''" by (simp add: triacontane_def)
  have m: "MolFromSmiles alkane_engine triacontane = Some triacontane"
          "MolFromSmiles alkane_engine ''CCO'' = Some ''CCO''"
    by (simp_all add: alkane_engine_def)
  have p: "spec_parse alkane_engine (Some (PyStr triacontane)) = Some triacontane"
          "spec_parse alkane_engine (Some (PyStr ''CCO'')) = Some ''CCO''"
    by (simp_all add: spec_parse_def strip_examples m)
  have t: "threshold_tests alkane_engine triacontane = [False, True, False, False]"
    using ne by (simp add: threshold_tests_def alkane_engine_def)
  have v: "spec_violations alkane_engine ''CCO'' = 0"
    by (simp add: spec_violations_def threshold_tests_def alkane_engine_def)
  have "rows (result_table alkane_engine ''smiles'' same_label_valid) ! 0 =
      spec_scored_row alkane_engine ''CCO'' (rows same_label_valid ! 0)"
    by (simp add: rows_result_table same_label_valid_def p)
  then have out:
    "(rows (result_table alkane_engine ''smiles'' same_label_valid) ! 0) ''LipinskiViolations'' =
       Some (PyInt 0)"
    "(rows (result_table alkane_engine ''smiles'' same_label_valid) ! 0) ''LipinskiResult'' =
       Some (PyStr ''Pass'')"
    by (simp_all add: scored_cells v)
  have inp: "index same_label_valid = [0, 0]"
    "(rows same_label_valid ! 0) ''smiles'' = Some (PyStr triacontane)"
    by (simp_all add: same_label_valid_def)
  show ?thesis
    unfolding run using out inp m(1) t strip_examples(5) by simp
qed

text \<open>
  C2. The claim fails on the code when two rows share an index label. In the table of
  ethanol and the string \<open>C1CC\<close> under the one label 0, the parser rejects the second
  cell, and the loop takes the \<open>continue\<close> for it; but the write of the first row had
  gone to the label and reached the second row too, which is left valid, with the
  descriptors of ethanol and the result \<open>Pass\<close>.
\<close>

theorem analyze_same_label_marks_rejected_valid:
  "fst (analyze_lipinski ethanol_engine 0 ''smiles'' [same_label_rejected]) = Inr 1 \<and>
   index same_label_rejected = [0, 0] \<and>
   (rows same_label_rejected ! 1) ''smiles'' = Some (PyStr ''C1CC'') \<and>
   MolFromSmiles ethanol_engine ''C1CC'' = None \<and>
   (rows (snd (analyze_lipinski ethanol_engine 0 ''smiles'' [same_label_rejected]) ! 1) ! 1)
      ''SMILES_Valid'' = Some (PyBool True) \<and>
   (rows (snd (analyze_lipinski ethanol_engine 0 ''smiles'' [same_label_rejected]) ! 1) ! 1)
      ''MolWt'' = Some (PyFloat (46069 / 1000)) \<and>
   (rows (snd (analyze_lipinski ethanol_engine 0 ''smiles'' [same_label_rejected]) ! 1) ! 1)
      ''LipinskiResult'' = Some (PyStr ''Pass'')"
proof -
  have wf: "wf_table ([same_label_rejected] ! 0)"
    by (simp add: wf_table_def same_label_rejected_def)
  have col: "''smiles'' \<in> set (columns ([same_label_rejected] ! 0))"
    by (simp add: same_label_rejected_def)
  have "0 < length [same_label_rejected]" by simp
  from analyze_lipinski_wf [OF this wf col, of ethanol_engine]
  have run: "analyze_lipinski ethanol_engine 0 ''smiles'' [same_label_rejected] =
      (Inr 1, [same_label_rejected, result_table ethanol_engine ''smiles'' same_label_rejected])"
    by simp
  have m: "MolFromSmiles ethanol_engine ''C1CC'' = None"
    by (simp add: ethanol_engine_def)
  have p: "spec_parse ethanol_engine (Some (PyStr ''CCO'')) = Some ''CCO''"
          "spec_parse ethanol_engine (Some (PyStr ''C1CC'')) = None"
    by (simp_all add: spec_parse_def strip_examples ethanol_engine_def)
  have v: "spec_violations ethanol_engine ''CCO'' = 0"
    by (simp add: spec_violations_def threshold_tests_def ethanol_engine_def)
  have w: "MolWt ethanol_engine ''CCO'' = 46069 / 1000"
    by (simp add: ethanol_engine_def)
  have "rows (result_table ethanol_engine ''smiles'' same_label_rejected) ! 1 =
      spec_scored_row ethanol_engine ''CCO'' (rows same_label_rejected ! 1)"
    by (simp add: rows_result_table same_label_rejected_def p)
  then have out:
    "(rows (result_table ethanol_engine ''smiles'' same_label_rejected) ! 1) ''SMILES_Valid'' =
       Some (PyBool True)"
    "(rows (result_table ethanol_engine ''smiles'' same_label_rejected) ! 1) ''MolWt'' =
       Some (PyFloat (46069 / 1000))"
    "(rows (result_table ethanol_engine ''smiles'' same_label_rejected) ! 1) ''LipinskiResult'' =
       Some (PyStr ''Pass'')"
    by (simp_all add: scored_cells v w)
  have inp: "index same_label_rejected = [0, 0]"
    "(rows same_label_rejected ! 1) ''smiles'' = Some (PyStr ''C1CC'')"
    by (simp_all add: same_label_rejected_def)
  show ?thesis
    unfolding run using out inp m by simp
qed

text \<open>
  C3. If column \<open>i\<close> is the first column whose name, stripped of the characters that
  are not ASCII letters or digits and lowercased, is a canonical term, then
  \<open>detect_smiles_column\<close> returns it, wherever substring matches stand. If no column
  is such an exact match and column \<open>i\<close> is the first whose lowercased name contains a
  canonical term, then \<open>detect_smiles_column\<close> returns that one.
\<close>

theorem detect_exact_before_partial:
  assumes "i < length (columns df)"
  shows "(spec_exact (columns df ! i) \<and> (\<forall>j < i. \<not> spec_exact (columns df ! j))
            \<longrightarrow> detect_smiles_column df = Inr (columns df ! i))
       \<and> ((\<forall>c \<in> set (columns df). \<not> spec_exact c) \<and>
          spec_substring (columns df ! i) \<and> (\<forall>j < i. \<not> spec_substring (columns df ! j))
            \<longrightarrow> detect_smiles_column df = Inr (columns df ! i))"
proof (intro conjI impI)
  assume "spec_exact (columns df ! i) \<and> (\<forall>j < i. \<not> spec_exact (columns df ! j))"
  then have "find spec_exact (columns df) = Some (columns df ! i)"
    using assms by (auto simp: find_Some_iff)
  then show "detect_smiles_column df = Inr (columns df ! i)"
    by (simp add: detect_find)
next
  assume a: "(\<forall>c \<in> set (columns df). \<not> spec_exact c) \<and>
          spec_substring (columns df ! i) \<and> (\<forall>j < i. \<not> spec_substring (columns df ! j))"
  then have "find spec_exact (columns df) = None"
    by (simp add: find_None_iff)
  moreover have "find spec_substring (columns df) = Some (columns df ! i)"
    using assms a by (auto simp: find_Some_iff)
  ultimately show "detect_smiles_column df = Inr (columns df ! i)"
    by (simp add: detect_find)
qed

text \<open>
  An exact match in the third column wins over a substring match in the second, and
  without an exact match the first substring match is returned.
\<close>

theorem detect_exact_before_partial_witness:
  "spec_exact (columns id_iso_smiles ! 2) \<and> spec_substring (columns id_iso_smiles ! 1) \<and>
   detect_smiles_column id_iso_smiles = Inr ''SMILES'' \<and>
   \<not> spec_exact (columns id_iso ! 0) \<and> \<not> spec_exact (columns id_iso ! 1) \<and>
   spec_substring (columns id_iso ! 1) \<and>
   detect_smiles_column id_iso = Inr ''isosmiles''"
proof -
  have a: "spec_exact (columns id_iso_smiles ! 2) \<and> (\<forall>j < 2. \<not> spec_exact (columns id_iso_smiles ! j))"
    by (simp add: id_iso_smiles_def eval_exact all_less_2)
  have b: "(\<forall>c \<in> set (columns id_iso). \<not> spec_exact c) \<and>
          spec_substring (columns id_iso ! 1) \<and> (\<forall>j < 1. \<not> spec_substring (columns id_iso ! j))"
    by (simp add: id_iso_def eval_exact eval_substring)
  have c: "spec_substring (columns id_iso_smiles ! 1)"
    by (simp add: id_iso_smiles_def eval_substring)
  have l2: "2 < length (columns id_iso_smiles)" by (simp add: id_iso_smiles_def)
  have l1: "1 < length (columns id_iso)" by (simp add: id_iso_def)
  have "detect_smiles_column id_iso_smiles = Inr (columns id_iso_smiles ! 2)"
    using detect_exact_before_partial [OF l2] a by blast
  moreover have "detect_smiles_column id_iso = Inr (columns id_iso ! 1)"
    using detect_exact_before_partial [OF l1] b by blast
  ultimately show ?thesis using a b c by (simp add: id_iso_smiles_def id_iso_def eval_exact)
qed

text \<open>
  C4. \<open>detect_smiles_column\<close> raises if and only if no column name matches in either
  phase; what it raises is the \<open>ValueError\<close> with the message of the source; and
  whenever some column matches in a phase, a column name is returned.
\<close>

theorem detect_fails_iff_no_match:
  "((\<exists>e. detect_smiles_column df = Inl e) \<longleftrightarrow>
      (\<forall>c \<in> set (columns df). \<not> spec_exact c \<and> \<not> spec_substring c))
   \<and> (\<forall>e. detect_smiles_column df = Inl e \<longrightarrow>
         e = ValueError ''No valid SMILES column found. Please ensure your CSV contains a column with SMILES strings.'')
   \<and> ((\<exists>c \<in> set (columns df). spec_exact c \<or> spec_substring c) \<longrightarrow>
         (\<exists>col. detect_smiles_column df = Inr col))"
proof -
  have 1: "(\<exists>e. detect_smiles_column df = Inl e) \<longleftrightarrow>
      (\<forall>c \<in> set (columns df). \<not> spec_exact c \<and> \<not> spec_substring c)"
    by (auto simp: detect_find find_None_iff split: option.splits dest: find_Some_in)
  have 2: "\<forall>e. detect_smiles_column df = Inl e \<longrightarrow>
         e = ValueError ''No valid SMILES column found. Please ensure your CSV contains a column with SMILES strings.''"
    by (auto simp: detect_find no_column_message_def split: option.splits)
  have 3: "(\<exists>c \<in> set (columns df). spec_exact c \<or> spec_substring c) \<longrightarrow>
         (\<exists>col. detect_smiles_column df = Inr col)"
    using 1 by (cases "detect_smiles_column df") auto
  show ?thesis using 1 2 3 by blast
qed

text \<open>
  The columns \<open>id\<close> and \<open>name\<close> raise the error; the columns \<open>id\<close> and
  \<open>isosmiles\<close> return a name.
\<close>

theorem detect_fails_iff_no_match_witness:
  "\<not> spec_exact ''id'' \<and> \<not> spec_substring ''id'' \<and>
   \<not> spec_exact ''name'' \<and> \<not> spec_substring ''name'' \<and>
   detect_smiles_column no_smiles =
     Inl (ValueError ''No valid SMILES column found. Please ensure your CSV contains a column with SMILES strings.'') \<and>
   (\<exists>c \<in> set (columns id_iso). spec_exact c \<or> spec_substring c) \<and>
   (\<exists>col. detect_smiles_column id_iso = Inr col)"
proof -
  have a: "\<forall>c \<in> set (columns no_smiles). \<not> spec_exact c \<and> \<not> spec_substring c"
    by (simp add: no_smiles_def eval_exact eval_substring)
  have b: "\<exists>c \<in> set (columns id_iso). spec_exact c \<or> spec_substring c"
    by (simp add: id_iso_def eval_substring)
  from a obtain e where e: "detect_smiles_column no_smiles = Inl e"
    using detect_fails_iff_no_match [of no_smiles] by blast
  then have "e = ValueError ''No valid SMILES column found. Please ensure your CSV contains a column with SMILES strings.''"
    using detect_fails_iff_no_match [of no_smiles] by blast
  moreover have "\<exists>col. detect_smiles_column id_iso = Inr col"
    using detect_fails_iff_no_match [of id_iso] b by blast
  ultimately show ?thesis using b e by (simp add: eval_exact eval_substring)
qed

text \<open>
  C5. In the table \<open>analyze_lipinski\<close> returns, the total is the number of input rows,
  the valid and the invalid rows add up to the total, the rows with result \<open>Pass\<close> and
  the rows with result \<open>Fail\<close> add up to the valid rows, and a row that is not valid has
  neither result.
\<close>

theorem analyze_aggregate_counts:
  assumes "df < length h" and "wf_table (h ! df)" and "smiles_col \<in> set (columns (h ! df))"
  shows "\<exists>result_df h'.
           analyze_lipinski rd df smiles_col h = (Inr result_df, h') \<and>
           total_compounds (h' ! result_df) = length (rows (h ! df)) \<and>
           valid_smiles (h' ! result_df) + invalid_smiles (h' ! result_df) =
             total_compounds (h' ! result_df) \<and>
           pass_count (h' ! result_df) + fail_count (h' ! result_df) =
             valid_smiles (h' ! result_df) \<and>
           (\<forall>r \<in> set (rows (h' ! result_df)).
              r ''SMILES_Valid'' = Some (PyBool False) \<longrightarrow>
              r ''LipinskiResult'' \<noteq> Some (PyStr ''Pass'') \<and>
              r ''LipinskiResult'' \<noteq> Some (PyStr ''Fail''))"
proof -
  let ?out = "result_table rd smiles_col (h ! df)"
  have run: "analyze_lipinski rd df smiles_col h = (Inr (length h), h @ [?out])"
    using assms(1-3) by (rule analyze_lipinski_wf)
  have shape: "\<forall>x \<in> set (rows ?out).
      (\<exists>r. x = spec_invalid_row r) \<or> (\<exists>m r. x = spec_scored_row rd m r)"
    unfolding rows_result_table by (blast dest: render_shape)
  have t: "total_compounds ?out = length (rows (h ! df))"
    by (simp add: total_compounds_def length_result_table)
  have v: "valid_smiles ?out + invalid_smiles ?out = total_compounds ?out"
    unfolding valid_smiles_def invalid_smiles_def total_compounds_def
    using shape by (rule count_valid_invalid)
  have p: "pass_count ?out + fail_count ?out = valid_smiles ?out"
    unfolding valid_smiles_def pass_count_def fail_count_def
    using shape by (rule count_pass_fail)
  have n: "\<forall>r \<in> set (rows ?out). r ''SMILES_Valid'' = Some (PyBool False) \<longrightarrow>
              r ''LipinskiResult'' \<noteq> Some (PyStr ''Pass'') \<and>
              r ''LipinskiResult'' \<noteq> Some (PyStr ''Fail'')"
  proof (intro ballI impI)
    fix r assume r: "r \<in> set (rows ?out)" and "r ''SMILES_Valid'' = Some (PyBool False)"
    then have "r ''LipinskiResult'' = Some (PyStr ''Invalid SMILES'')"
      using shape invalid_not_scored [of r rd] by blast
    then show "r ''LipinskiResult'' \<noteq> Some (PyStr ''Pass'') \<and>
               r ''LipinskiResult'' \<noteq> Some (PyStr ''Fail'')" by simp
  qed
  show ?thesis using run t v p n by simp
qed

text \<open>
  The example table of three rows.
\<close>

theorem analyze_aggregate_counts_witness:
  "wf_table three_rows \<and> ''smiles'' \<in> set (columns three_rows) \<and>
   (\<exists>result_df h'.
      analyze_lipinski ethanol_engine 0 ''smiles'' [three_rows] = (Inr result_df, h') \<and>
      total_compounds (h' ! result_df) = 3 \<and>
      valid_smiles (h' ! result_df) + invalid_smiles (h' ! result_df) = 3 \<and>
      pass_count (h' ! result_df) + fail_count (h' ! result_df) = valid_smiles (h' ! result_df))"
proof -
  have n: "length (rows ([three_rows] ! 0)) = 3" by (simp add: three_rows_def)
  have "0 < length [three_rows]" by simp
  from analyze_aggregate_counts [OF this three_rows_wf three_rows_col, of ethanol_engine]
  obtain result_df h' where
    "analyze_lipinski ethanol_engine 0 ''smiles'' [three_rows] = (Inr result_df, h')"
    "total_compounds (h' ! result_df) = length (rows ([three_rows] ! 0))"
    "valid_smiles (h' ! result_df) + invalid_smiles (h' ! result_df) = total_compounds (h' ! result_df)"
    "pass_count (h' ! result_df) + fail_count (h' ! result_df) = valid_smiles (h' ! result_df)"
    by blast
  then show ?thesis using three_rows_wf three_rows_col n by auto
qed

text \<open>
  C6, as amended. For a table none of whose columns has one of the seven computed
  names, the table \<open>analyze_lipinski\<close> returns has the original columns first, in their
  order, followed by the seven computed columns in the order \<open>MolWt\<close>, \<open>LogP\<close>,
  \<open>NumHDonors\<close>, \<open>NumHAcceptors\<close>, \<open>LipinskiViolations\<close>, \<open>LipinskiResult\<close>,
  \<open>SMILES_Valid\<close>.
\<close>

theorem analyze_column_order:
  assumes "df < length h" and "wf_table (h ! df)" and "smiles_col \<in> set (columns (h ! df))"
    and "set (columns (h ! df)) \<inter> set computed_columns = {}"
  shows "\<exists>result_df h'.
           analyze_lipinski rd df smiles_col h = (Inr result_df, h') \<and>
           columns (h' ! result_df) =
             columns (h ! df) @
             [''MolWt'', ''LogP'', ''NumHDonors'', ''NumHAcceptors'', ''LipinskiViolations'',
              ''LipinskiResult'', ''SMILES_Valid'']"
proof -
  have run: "analyze_lipinski rd df smiles_col h =
      (Inr (length h), h @ [result_table rd smiles_col (h ! df)])"
    using assms(1-3) by (rule analyze_lipinski_wf)
  have "\<forall>x \<in> set computed_columns. x \<notin> set (columns (h ! df))"
    using assms(4) by blast
  then have "filter (\<lambda>x. x \<notin> set (columns (h ! df))) computed_columns = computed_columns"
    by (simp only: filter_id_conv)
  then have "columns (result_table rd smiles_col (h ! df)) = columns (h ! df) @ computed_columns"
    by (simp add: columns_result_table)
  then show ?thesis
    unfolding run by (simp add: computed_columns_def)
qed

text \<open>
  The example table, whose only column is \<open>smiles\<close>.
\<close>

theorem analyze_column_order_witness:
  "wf_table three_rows \<and> ''smiles'' \<in> set (columns three_rows) \<and>
   set (columns three_rows) \<inter> set computed_columns = {} \<and>
   (\<exists>result_df h'.
      analyze_lipinski ethanol_engine 0 ''smiles'' [three_rows] = (Inr result_df, h') \<and>
      columns (h' ! result_df) =
        [''smiles'', ''MolWt'', ''LogP'', ''NumHDonors'', ''NumHAcceptors'',
         ''LipinskiViolations'', ''LipinskiResult'', ''SMILES_Valid''])"
proof -
  have no: "set (columns ([three_rows] ! 0)) \<inter> set computed_columns = {}"
    by (simp add: three_rows_def computed_columns_def)
  have c: "columns three_rows = [''smiles'']" by (simp add: three_rows_def)
  have "0 < length [three_rows]" by simp
  from analyze_column_order [OF this three_rows_wf three_rows_col no, of ethanol_engine]
  show ?thesis using three_rows_wf three_rows_col no by (simp add: c)
qed

text \<open>
  C6 as stated fails: for a table with the single column \<open>smiles\<close> the column
  \<open>SMILES_Valid\<close> is the last of the result, not the first after the original columns.
\<close>

theorem analyze_column_order_counterexample:
  "fst (analyze_lipinski ethanol_engine 0 ''smiles'' [three_rows]) = Inr 1 \<and>
   columns three_rows = [''smiles''] \<and>
   columns (snd (analyze_lipinski ethanol_engine 0 ''smiles'' [three_rows]) ! 1) =
     [''smiles'', ''MolWt'', ''LogP'', ''NumHDonors'', ''NumHAcceptors'',
      ''LipinskiViolations'', ''LipinskiResult'', ''SMILES_Valid''] \<and>
   columns (snd (analyze_lipinski ethanol_engine 0 ''smiles'' [three_rows]) ! 1) \<noteq>
     columns three_rows @
     [''SMILES_Valid'', ''MolWt'', ''LogP'', ''NumHDonors'', ''NumHAcceptors'',
      ''LipinskiViolations'', ''LipinskiResult'']"
proof -
  have "0 < length [three_rows]" by simp
  from analyze_lipinski_wf [OF this three_rows_wf three_rows_col, of ethanol_engine]
  have run: "analyze_lipinski ethanol_engine 0 ''smiles'' [three_rows] =
      (Inr 1, [three_rows, result_table ethanol_engine ''smiles'' three_rows])"
    by simp
  have c: "columns three_rows = [''smiles'']" by (simp add: three_rows_def)
  have a: "columns (result_table ethanol_engine ''smiles'' three_rows) =
     [''smiles'', ''MolWt'', ''LogP'', ''NumHDonors'', ''NumHAcceptors'',
      ''LipinskiViolations'', ''LipinskiResult'', ''SMILES_Valid'']"
    by (simp add: columns_result_table computed_columns_def c)
  show ?thesis
    unfolding run by (simp add: a c)
qed

text \<open>
  C7. The claim fails on the code for a table with a column named like a computed
  one. The input object itself is left as it was, but the column initialisation
  \<open>result_df['MolWt'] = None\<close> and the write of the loop replace the cell the user had
  in the column \<open>MolWt\<close>: the input cell 46 is 46.069 in the result.
\<close>

theorem analyze_overwrites_user_column:
  "fst (analyze_lipinski ethanol_engine 0 ''smiles'' [with_molwt]) = Inr 1 \<and>
   snd (analyze_lipinski ethanol_engine 0 ''smiles'' [with_molwt]) ! 0 = with_molwt \<and>
   ''MolWt'' \<in> set (columns with_molwt) \<and>
   (rows with_molwt ! 0) ''MolWt'' = Some (PyFloat 46) \<and>
   (rows (snd (analyze_lipinski ethanol_engine 0 ''smiles'' [with_molwt]) ! 1) ! 0) ''MolWt'' =
     Some (PyFloat (46069 / 1000)) \<and>
   (rows (snd (analyze_lipinski ethanol_engine 0 ''smiles'' [with_molwt]) ! 1) ! 0) ''MolWt'' \<noteq>
     (rows with_molwt ! 0) ''MolWt''"
proof -
  have wf: "wf_table ([with_molwt] ! 0)"
    by (simp add: wf_table_def with_molwt_def insert_commute)
  have col: "''smiles'' \<in> set (columns ([with_molwt] ! 0))" by (simp add: with_molwt_def)
  have "0 < length [with_molwt]" by simp
  from analyze_lipinski_wf [OF this wf col, of ethanol_engine]
  have run: "analyze_lipinski ethanol_engine 0 ''smiles'' [with_molwt] =
      (Inr 1, [with_molwt, result_table ethanol_engine ''smiles'' with_molwt])"
    by simp
  have p: "spec_parse ethanol_engine (Some (PyStr ''CCO'')) = Some ''CCO''"
    by (simp add: spec_parse_def strip_examples ethanol_engine_def)
  have w: "MolWt ethanol_engine ''CCO'' = 46069 / 1000"
    by (simp add: ethanol_engine_def)
  have "rows (result_table ethanol_engine ''smiles'' with_molwt) ! 0 =
      spec_scored_row ethanol_engine ''CCO'' (rows with_molwt ! 0)"
    by (simp add: rows_result_table with_molwt_def p)
  then have out: "(rows (result_table ethanol_engine ''smiles'' with_molwt) ! 0) ''MolWt'' =
      Some (PyFloat (46069 / 1000))"
    by (simp add: scored_cells w)
  have inp: "(rows with_molwt ! 0) ''MolWt'' = Some (PyFloat 46)"
    "''MolWt'' \<in> set (columns with_molwt)"
    by (simp_all add: with_molwt_def)
  show ?thesis
    unfolding run using out inp by simp
qed



text \<open>
  C9. Running \<open>analyze_lipinski\<close> a second time, in the heap the first run leaves
  behind, on the same table and column, returns a table equal to the first result; the
  first result and the input are not changed by the second run. The parser and the
  descriptor functions are functions of their argument, as the claim supposes.
\<close>

theorem analyze_twice:
  assumes "df < length h" and "wf_table (h ! df)" and "smiles_col \<in> set (columns (h ! df))"
  shows "\<exists>r1 h1 r2 h2.
           analyze_lipinski rd df smiles_col h = (Inr r1, h1) \<and>
           analyze_lipinski rd df smiles_col h1 = (Inr r2, h2) \<and>
           h2 ! r2 = h1 ! r1 \<and> h2 ! r1 = h1 ! r1 \<and> h2 ! df = h ! df"
proof -
  let ?out = "result_table rd smiles_col (h ! df)"
  let ?h1 = "h @ [?out]"
  have run1: "analyze_lipinski rd df smiles_col h = (Inr (length h), ?h1)"
    using assms(1-3) by (rule analyze_lipinski_wf)
  have same: "?h1 ! df = h ! df" using assms(1) by (simp add: nth_append)
  have "analyze_lipinski rd df smiles_col ?h1 =
      (Inr (length ?h1), ?h1 @ [result_table rd smiles_col (?h1 ! df)])"
    using assms by (intro analyze_lipinski_wf) (simp_all add: nth_append)
  then have run2: "analyze_lipinski rd df smiles_col ?h1 = (Inr (Suc (length h)), ?h1 @ [?out])"
    by (simp add: same)
  show ?thesis
    using run1 run2 assms(1) by (simp add: nth_append)
qed

text \<open>
  The example table, analysed twice.
\<close>

theorem analyze_twice_witness:
  "wf_table three_rows \<and> ''smiles'' \<in> set (columns three_rows) \<and>
   (\<exists>r1 h1 r2 h2.
      analyze_lipinski ethanol_engine 0 ''smiles'' [three_rows] = (Inr r1, h1) \<and>
      analyze_lipinski ethanol_engine 0 ''smiles'' h1 = (Inr r2, h2) \<and>
      h2 ! r2 = h1 ! r1 \<and> h2 ! r1 = h1 ! r1 \<and> h2 ! 0 = three_rows)"
proof -
  have "0 < length [three_rows]" by simp
  from analyze_twice [OF this three_rows_wf three_rows_col, of ethanol_engine]
  show ?thesis using three_rows_wf three_rows_col by simp
qed

text \<open>
  C10. A name \<open>detect_smiles_column\<close> returns is one of the column names of the
  table, and two tables with the same column names get the same answer, whatever their
  rows hold.
\<close>

theorem detect_column_names_only:
  "(detect_smiles_column df = Inr col \<longrightarrow> col \<in> set (columns df))
   \<and> (columns df' = columns df \<longrightarrow> detect_smiles_column df' = detect_smiles_column df)"
proof -
  have "detect_smiles_column df = Inr col \<Longrightarrow> col \<in> set (columns df)"
    by (auto simp: detect_find find_Some_iff split: option.splits)
  moreover have "columns df' = columns df \<Longrightarrow> detect_smiles_column df' = detect_smiles_column df"
    by (simp add: detect_smiles_column_def split: option.splits)
  ultimately show ?thesis by blast
qed

text \<open>
  A table without rows and a table with one row, under the same three column names.
\<close>

theorem detect_column_names_only_witness:
  "detect_smiles_column structure_empty = Inr ''Structure'' \<and>
   ''Structure'' \<in> set (columns structure_empty) \<and>
   columns structure_one = columns structure_empty \<and>
   detect_smiles_column structure_one = detect_smiles_column structure_empty"
proof -
  have c: "columns structure_one = columns structure_empty"
    by (simp add: structure_one_def structure_empty_def)
  show ?thesis
    using detect_column_names_only [of structure_empty "''Structure''" structure_one]
      eval_detect_structure c by blast
qed

end
